theory Spec2Isabelle
  imports Main
begin

section \<open>Resource declarations\<close>

text \<open>
  The program under study declares cloud resources; it contains no algorithm of its own.
  A declaration is a type token, a logical name, a property bag and resource options.
  A property is either a plain string or a pending value (\<open>pulumi.Output\<close>) that names
  the resources it was derived from.
\<close>

datatype rtype =
    Project | Service | Network | Subnetwork | Cluster | Firewall | Instance
  | K8sProvider | Namespace | ServiceAccount | Chart | Gateway | VirtualService
  | WorkloadGroup | LocalCommand | RemoteCommand | CopyFile | PrivateKey
  | VmServiceComponent

type_synonym urn = "rtype \<times> string"

datatype input = Plain string | Output "urn list"

fun input_deps :: "input \<Rightarrow> urn list" where
  "input_deps (Plain v) = []"
| "input_deps (Output ds) = ds"

text \<open>\<open>pulumi.interpolate\<close> and \<open>pulumi.output(obj)\<close>: a pending value that carries the
  resources of every pending value inside.\<close>

definition interpolate :: "input list \<Rightarrow> input" where
  "interpolate xs = Output (concat (map input_deps xs))"

record options =
  dependsOn :: "urn list"
  provider :: "urn option"
  parent :: "urn option"
  deleteBeforeReplace :: bool

definition no_opts :: options where
  "no_opts = \<lparr>dependsOn = [], provider = None, parent = None, deleteBeforeReplace = False\<rparr>"

record resource =
  rkind :: rtype
  rname :: string
  props :: "(string \<times> input) list"
  triggers :: "int list"
  ropts :: options

definition urn :: "resource \<Rightarrow> urn" where
  "urn r = (rkind r, rname r)"

text \<open>Everything a resource waits for: the resources behind its pending properties, its
  explicit \<open>dependsOn\<close>, its provider and its parent.\<close>

definition prop_deps :: "resource \<Rightarrow> urn list" where
  "prop_deps r = concat (map (\<lambda>kv. input_deps (snd kv)) (props r))"

definition all_deps :: "resource \<Rightarrow> urn list" where
  "all_deps r =
     prop_deps r @ dependsOn (ropts r)
     @ (case provider (ropts r) of None \<Rightarrow> [] | Some p \<Rightarrow> [p])
     @ (case parent (ropts r) of None \<Rightarrow> [] | Some p \<Rightarrow> [p])"

section \<open>vm.ts: the VmService component\<close>

record VmServiceArgs =
  args_network_name :: input
  args_network_id :: input
  args_subnetId :: input
  args_project :: input
  args_zone :: input
  args_kubeconfigFile :: input
  args_istioVersion :: input
  args_cluster_name :: input
  args_cluster_network :: input
  args_vmNetwork :: input
  args_namespace :: input

text \<open>The constructor's third argument: component options and a \<open>clusterOpts\<close> member.\<close>

record vm_options = options +
  opts_clusterOpts :: options

definition WORK_DIR :: "string \<Rightarrow> string \<Rightarrow> string" where
  "WORK_DIR dirname name = dirname @ ''/workloads/'' @ name"

definition envs :: "string \<Rightarrow> string \<Rightarrow> VmServiceArgs \<Rightarrow> (string \<times> input) list" where
  "envs dirname name args =
     [(''KUBECONFIG'', args_kubeconfigFile args),
      (''VM_APP'', Plain name),
      (''VM_NAMESPACE'', args_namespace args),
      (''WORK_DIR'', Plain (WORK_DIR dirname name)),
      (''SERVICE_ACCOUNT'', Plain name),
      (''CLUSTER_NETWORK'', args_cluster_network args),
      (''VM_NETWORK'', args_vmNetwork args),
      (''CLUSTER'', args_cluster_name args)]"

text \<open>Member access on the \<open>envs\<close> object; a missing key is \<open>undefined\<close>, which carries
  no dependency.\<close>

definition env :: "(string \<times> input) list \<Rightarrow> string \<Rightarrow> input" where
  "env es k = (case map_of es k of None \<Rightarrow> Plain [] | Some v \<Rightarrow> v)"

definition component :: "string \<Rightarrow> resource" where
  "component name =
     \<lparr>rkind = VmServiceComponent, rname = name, props = [], triggers = [], ropts = no_opts\<rparr>"

definition sa :: "string \<Rightarrow> VmServiceArgs \<Rightarrow> vm_options \<Rightarrow> resource" where
  "sa name args opts =
     \<lparr>rkind = ServiceAccount, rname = name,
      props = [(''metadata.name'', Plain name), (''metadata.namespace'', args_namespace args)],
      triggers = [],
      ropts = (opts_clusterOpts opts)\<lparr>deleteBeforeReplace := True\<rparr>\<rparr>"

definition workloadGroup :: "string \<Rightarrow> string \<Rightarrow> VmServiceArgs \<Rightarrow> vm_options \<Rightarrow> resource" where
  "workloadGroup dirname name args opts =
     (let e = envs dirname name args in
      \<lparr>rkind = WorkloadGroup, rname = name,
       props = [(''metadata.name'', env e ''VM_APP''),
                (''metadata.namespace'', env e ''VM_NAMESPACE''),
                (''spec.metadata.labels.app'', env e ''VM_APP''),
                (''spec.template.serviceAccount'', env e ''SERVICE_ACCOUNT''),
                (''spec.template.network'', env e ''VM_NETWORK'')],
       triggers = [],
       ropts = opts_clusterOpts opts\<rparr>)"

text \<open>The \<open>create\<close> and \<open>delete\<close> scripts of the commands are string literals without
  pending values; they are modelled separately below, where their effect matters.\<close>

definition workDir :: "string \<Rightarrow> string \<Rightarrow> VmServiceArgs \<Rightarrow> vm_options \<Rightarrow> resource" where
  "workDir dirname name args opts =
     \<lparr>rkind = LocalCommand, rname = name,
      props = map (\<lambda>kv. (''environment.'' @ fst kv, snd kv)) (envs dirname name args),
      triggers = [],
      ropts = no_opts\<lparr>dependsOn := [urn (sa name args opts)], deleteBeforeReplace := True\<rparr>\<rparr>"

definition sshKey :: "string \<Rightarrow> resource" where
  "sshKey name =
     \<lparr>rkind = PrivateKey, rname = name, props = [(''algorithm'', Plain ''ED25519'')],
      triggers = [], ropts = no_opts\<rparr>"

definition privateKey :: "string \<Rightarrow> input" where
  "privateKey name = Output [urn (sshKey name)]"

definition vm :: "string \<Rightarrow> VmServiceArgs \<Rightarrow> vm_options \<Rightarrow> resource" where
  "vm name args opts =
     \<lparr>rkind = Instance, rname = name,
      props = [(''project'', args_project args),
               (''zone'', args_zone args),
               (''machineType'', Plain ''f1-micro''),
               (''bootDisk.initializeParams.image'', Plain ''ubuntu-2204-jammy-v20230302''),
               (''networkInterfaces.0.network'', args_network_id args),
               (''networkInterfaces.0.subnetwork'', args_subnetId args),
               (''serviceAccount.scopes.0'', Plain ''https://www.googleapis.com/auth/cloud-platform''),
               (''allowStoppingForUpdate'', Plain ''true''),
               (''metadata.ssh-keys'',
                  interpolate [Plain ''istio:'', Output [urn (sshKey name)], Plain '' istio''])],
      triggers = [],
      ropts = options.truncate opts\<rparr>"

definition hostname :: "string \<Rightarrow> VmServiceArgs \<Rightarrow> vm_options \<Rightarrow> input" where
  "hostname name args opts = Output [urn (vm name args opts)]"

definition keyOnDisk :: "string \<Rightarrow> VmServiceArgs \<Rightarrow> vm_options \<Rightarrow> resource" where
  "keyOnDisk name args opts =
     \<lparr>rkind = LocalCommand, rname = name @ ''-key'',
      props = [(''environment.SSHKEY'', privateKey name),
               (''environment.HOSTNAME'', hostname name args opts)],
      triggers = [],
      ropts = no_opts\<lparr>deleteBeforeReplace := True\<rparr>\<rparr>"

definition connection :: "string \<Rightarrow> VmServiceArgs \<Rightarrow> vm_options \<Rightarrow> (string \<times> input) list" where
  "connection name args opts =
     [(''connection.host'', hostname name args opts),
      (''connection.user'', Plain ''istio''),
      (''connection.privateKey'', Output [urn (sshKey name)])]"

definition files :: "string list" where
  "files = [''cluster.env'', ''istio-token'', ''mesh.yaml'', ''root-cert.pem'', ''hosts'']"

definition copyFile :: "string \<Rightarrow> string \<Rightarrow> VmServiceArgs \<Rightarrow> vm_options \<Rightarrow> string \<Rightarrow> resource" where
  "copyFile dirname name args opts f =
     \<lparr>rkind = CopyFile, rname = name @ ''-'' @ f,
      props = connection name args opts
              @ [(''localPath'', Plain (WORK_DIR dirname name @ ''/'' @ f)),
                 (''remotePath'', Plain (''/home/istio/'' @ f))],
      triggers = [],
      ropts = no_opts\<lparr>dependsOn := [urn (vm name args opts), urn (workDir dirname name args opts)],
                      deleteBeforeReplace := True\<rparr>\<rparr>"

definition remoteFiles :: "string \<Rightarrow> string \<Rightarrow> VmServiceArgs \<Rightarrow> vm_options \<Rightarrow> resource list" where
  "remoteFiles dirname name args opts = map (copyFile dirname name args opts) files"

definition dockerSetup :: "string \<Rightarrow> VmServiceArgs \<Rightarrow> vm_options \<Rightarrow> resource" where
  "dockerSetup name args opts =
     \<lparr>rkind = RemoteCommand, rname = name @ ''-docker-setup'',
      props = connection name args opts, triggers = [], ropts = no_opts\<rparr>"

definition dockerRun :: "string \<Rightarrow> VmServiceArgs \<Rightarrow> vm_options \<Rightarrow> resource" where
  "dockerRun name args opts =
     \<lparr>rkind = RemoteCommand, rname = name @ ''-docker-run'',
      props = connection name args opts, triggers = [],
      ropts = no_opts\<lparr>dependsOn := [urn (dockerSetup name args opts)],
                      deleteBeforeReplace := True\<rparr>\<rparr>"

text \<open>The version in the \<open>create\<close> script of the last command is spliced in by a plain
  template literal, so it adds no dependency.\<close>

definition configure :: "string \<Rightarrow> string \<Rightarrow> VmServiceArgs \<Rightarrow> vm_options \<Rightarrow> resource" where
  "configure dirname name args opts =
     \<lparr>rkind = RemoteCommand, rname = name @ ''-configure'',
      props = connection name args opts, triggers = [],
      ropts = no_opts\<lparr>dependsOn := map urn (remoteFiles dirname name args opts)
                                     @ [urn (dockerRun name args opts)]\<rparr>\<rparr>"

text \<open>The resources the constructor declares, in the order of its statements.\<close>

definition VmService :: "string \<Rightarrow> string \<Rightarrow> VmServiceArgs \<Rightarrow> vm_options \<Rightarrow> resource list" where
  "VmService dirname name args opts =
     [component name, sa name args opts, workloadGroup dirname name args opts,
      workDir dirname name args opts, sshKey name, vm name args opts,
      keyOnDisk name args opts]
     @ remoteFiles dirname name args opts
     @ [dockerSetup name args opts, dockerRun name args opts,
        configure dirname name args opts]"

section \<open>function.ts: the declaration program\<close>

definition region :: string where "region = ''us-central1''"

definition kubeconfigFile :: "string \<Rightarrow> string" where
  "kubeconfigFile dirname = dirname @ ''/kubeconfig''"

definition istio_version :: string where "istio_version = ''1.17.2''"

definition istio_repo :: string where
  "istio_repo = ''https://istio-release.storage.googleapis.com/charts''"

definition cluster_name :: string where "cluster_name = ''controlplane''"

definition cluster_network :: string where "cluster_network = ''kube-network''"

definition vmNetwork :: string where "vmNetwork = ''vm-network''"

definition projectRes :: resource where
  "projectRes =
     \<lparr>rkind = Project, rname = ''project'',
      props = [(''orgId'', Plain ''775566979306''),
               (''projectId'', Plain ''kubecon-eu-2023-apiserver''),
               (''billingAccount'', Plain ''0183E5-447B34-776DEB''),
               (''labels.tetrate_owner'', Plain ''liam''),
               (''labels.tetrate_team'', Plain ''devrel'')],
      triggers = [], ropts = no_opts\<rparr>"

text \<open>\<open>project\<close> is the \<open>projectId\<close> output of the project resource.\<close>

definition project :: input where
  "project = Output [urn projectRes]"

definition containerService :: resource where
  "containerService =
     \<lparr>rkind = Service, rname = ''gke'',
      props = [(''project'', project), (''service'', Plain ''container.googleapis.com'')],
      triggers = [], ropts = no_opts\<rparr>"

definition network :: resource where
  "network =
     \<lparr>rkind = Network, rname = ''network'',
      props = [(''project'', project), (''autoCreateSubnetworks'', Plain ''false'')],
      triggers = [], ropts = no_opts\<rparr>"

definition subnet :: resource where
  "subnet =
     \<lparr>rkind = Subnetwork, rname = ''subnet'',
      props = [(''project'', project), (''region'', Plain region),
               (''ipCidrRange'', Plain ''10.0.1.0/24''), (''network'', Output [urn network])],
      triggers = [], ropts = no_opts\<rparr>"

definition gke :: resource where
  "gke =
     \<lparr>rkind = Cluster, rname = ''cluster'',
      props = [(''location'', Plain region), (''enableAutopilot'', Plain ''true''),
               (''project'', project)],
      triggers = [], ropts = no_opts\<lparr>dependsOn := [urn containerService]\<rparr>\<rparr>"

definition kubeContext :: input where
  "kubeContext = interpolate [project, Plain ''_'', Output [urn gke]]"

text \<open>The kubeconfig object holds the context name, the cluster's CA certificate and its
  endpoint; \<open>pulumi.output(kubeconfig).apply(JSON.stringify)\<close> is pending on all of them.\<close>

definition kubeconfig :: input where
  "kubeconfig =
     interpolate [kubeContext, Output [urn gke], interpolate [Plain ''https://'', Output [urn gke]]]"

text \<open>\<open>new Date().getMilliseconds()\<close>: the millisecond component of the clock, read when
  the program is evaluated. The clock reading \<open>now\<close> (milliseconds since the epoch) is an
  input of the program.\<close>

definition getMilliseconds :: "int \<Rightarrow> int" where
  "getMilliseconds t = t mod 1000"

definition localKc :: "string \<Rightarrow> int \<Rightarrow> resource" where
  "localKc dirname now =
     \<lparr>rkind = LocalCommand, rname = ''kc'',
      props = [(''create'', interpolate [Plain ''echo $KUBECONFIG > '', Plain (kubeconfigFile dirname)]),
               (''environment.KUBECONFIG'', kubeconfig)],
      triggers = [getMilliseconds now],
      ropts = no_opts\<lparr>deleteBeforeReplace := True\<rparr>\<rparr>"

definition k8sProvider :: resource where
  "k8sProvider =
     \<lparr>rkind = K8sProvider, rname = ''k8s'', props = [(''kubeconfig'', kubeconfig)],
      triggers = [], ropts = no_opts\<rparr>"

definition clusterOpts :: "string \<Rightarrow> int \<Rightarrow> options" where
  "clusterOpts dirname now =
     \<lparr>dependsOn = [urn (localKc dirname now)], provider = Some (urn k8sProvider),
      parent = Some (urn gke), deleteBeforeReplace = False\<rparr>"

definition istioNamespace :: "string \<Rightarrow> int \<Rightarrow> resource" where
  "istioNamespace dirname now =
     \<lparr>rkind = Namespace, rname = ''istio-system'',
      props = [(''metadata.name'', Plain ''istio-system'')],
      triggers = [], ropts = clusterOpts dirname now\<rparr>"

definition base :: "string \<Rightarrow> int \<Rightarrow> resource" where
  "base dirname now =
     \<lparr>rkind = Chart, rname = ''istio-base'',
      props = [(''chart'', Plain ''base''), (''version'', Plain istio_version),
               (''namespace'', Output [urn (istioNamespace dirname now)]),
               (''fetchOpts.repo'', Plain istio_repo)],
      triggers = [], ropts = clusterOpts dirname now\<rparr>"

definition istiod :: "string \<Rightarrow> int \<Rightarrow> resource" where
  "istiod dirname now =
     \<lparr>rkind = Chart, rname = ''istio-istiod'',
      props = [(''chart'', Plain ''istiod''), (''version'', Plain istio_version),
               (''namespace'', Output [urn (istioNamespace dirname now)]),
               (''fetchOpts.repo'', Plain istio_repo),
               (''values.global.meshID'', Plain ''mesh''),
               (''values.global.multiCluster.clusterName'', Plain ''controlplane'')],
      triggers = [],
      ropts = (clusterOpts dirname now)\<lparr>dependsOn := [urn (base dirname now)]\<rparr>\<rparr>"

definition ewgw :: "string \<Rightarrow> int \<Rightarrow> resource" where
  "ewgw dirname now =
     \<lparr>rkind = Chart, rname = ''istio-eastwestgateway'',
      props = [(''chart'', Plain ''gateway''), (''version'', Plain istio_version),
               (''namespace'', Output [urn (istioNamespace dirname now)]),
               (''fetchOpts.repo'', Plain istio_repo),
               (''values.labels.istio'', Plain ''eastwestgateway''),
               (''values.labels.app'', Plain ''istio-eastwestgateway''),
               (''values.labels.topology.istio.io/network'', Plain cluster_network)],
      triggers = [],
      ropts = (clusterOpts dirname now)\<lparr>dependsOn := [urn (base dirname now)]\<rparr>\<rparr>"

definition istiodgw :: "string \<Rightarrow> int \<Rightarrow> resource" where
  "istiodgw dirname now =
     \<lparr>rkind = Gateway, rname = ''istiod-gateway'',
      props = [(''metadata.namespace'', Plain ''istio-system''),
               (''spec.selector.istio'', Plain ''eastwestgateway'')],
      triggers = [], ropts = clusterOpts dirname now\<rparr>"

definition istiodvs :: "string \<Rightarrow> int \<Rightarrow> resource" where
  "istiodvs dirname now =
     \<lparr>rkind = VirtualService, rname = ''istiod-vs'',
      props = [(''metadata.namespace'', Plain ''istio-system''),
               (''spec.gateways.0'', Output [urn (istiodgw dirname now)])],
      triggers = [], ropts = clusterOpts dirname now\<rparr>"

definition crossNetworkGateway :: "string \<Rightarrow> int \<Rightarrow> resource" where
  "crossNetworkGateway dirname now =
     \<lparr>rkind = Gateway, rname = ''cross-network-gateway'',
      props = [(''metadata.namespace'', Plain ''istio-system''),
               (''spec.selector.istio'', Plain ''eastwestgateway'')],
      triggers = [], ropts = clusterOpts dirname now\<rparr>"

definition firewall :: resource where
  "firewall =
     \<lparr>rkind = Firewall, rname = ''firewall'',
      props = [(''project'', project), (''network'', Output [urn network]),
               (''direction'', Plain ''INGRESS''), (''sourceRanges.0'', Plain ''0.0.0.0/0'')],
      triggers = [], ropts = no_opts\<rparr>"

definition onpremns :: "string \<Rightarrow> int \<Rightarrow> resource" where
  "onpremns dirname now =
     \<lparr>rkind = Namespace, rname = ''on-prem'',
      props = [(''metadata.name'', Plain ''onprem'')],
      triggers = [], ropts = clusterOpts dirname now\<rparr>"

definition test_args :: "string \<Rightarrow> int \<Rightarrow> VmServiceArgs" where
  "test_args dirname now =
     \<lparr>args_network_name = Output [urn network],
      args_network_id = Output [urn network],
      args_subnetId = Output [urn subnet],
      args_project = project,
      args_zone = Plain (region @ ''-b''),
      args_kubeconfigFile = Plain (kubeconfigFile dirname),
      args_istioVersion = Plain istio_version,
      args_cluster_name = Plain cluster_name,
      args_cluster_network = Plain cluster_network,
      args_vmNetwork = Plain vmNetwork,
      args_namespace = Output [urn (onpremns dirname now)]\<rparr>"

text \<open>\<open>ewgw.ready\<close> is the list of the chart's own resources; the chart is one node here, so
  waiting for \<open>ready\<close> is waiting for that node.\<close>

definition test_opts :: "string \<Rightarrow> int \<Rightarrow> vm_options" where
  "test_opts dirname now =
     \<lparr>dependsOn = [urn (ewgw dirname now), urn firewall], provider = None, parent = None,
      deleteBeforeReplace = False, opts_clusterOpts = clusterOpts dirname now\<rparr>"

definition pulumiFunction :: "string \<Rightarrow> int \<Rightarrow> resource list" where
  "pulumiFunction dirname now =
     [projectRes, containerService, network, subnet, gke, localKc dirname now, k8sProvider,
      istioNamespace dirname now, base dirname now, istiod dirname now, ewgw dirname now,
      istiodgw dirname now, istiodvs dirname now, crossNetworkGateway dirname now,
      firewall, onpremns dirname now]
     @ VmService dirname ''test'' (test_args dirname now) (test_opts dirname now)"

section \<open>The dependency resolver\<close>

text \<open>
  Modelled from the spec: the engine that materialises the declarations is the
  orchestration runtime, which is not part of the repository. Its contract (sections 4.2
  and 5 of the specification): no operation begins before every resource it waits for
  has been materialised, and a resource whose upstream dependency failed is never
  materialised. An execution is a list of events: \<open>Declare u\<close>, the program has executed
  the statement that declares \<open>u\<close> (the statements run in program order);
  \<open>Start u\<close>, the engine begins to materialise \<open>u\<close>; \<open>Finish u\<close>, \<open>u\<close> is
  materialised; \<open>Fail u\<close>, the operation on \<open>u\<close> failed. Independent branches may
  interleave in any way, and an execution may stop anywhere.
  \<open>step\<close> checks one event against the contract, \<open>exec\<close> a whole list.
\<close>

datatype event = Declare urn | Start urn | Finish urn | Fail urn

record engine =
  declared :: "urn list"
  started :: "urn list"
  finished :: "urn list"
  failed :: "urn list"

definition init :: engine where
  "init = \<lparr>declared = [], started = [], finished = [], failed = []\<rparr>"

definition deps_of :: "resource list \<Rightarrow> urn \<Rightarrow> urn list" where
  "deps_of prog u = (case find (\<lambda>r. urn r = u) prog of None \<Rightarrow> [] | Some r \<Rightarrow> all_deps r)"

fun step :: "resource list \<Rightarrow> engine \<Rightarrow> event \<Rightarrow> engine option" where
  "step prog s (Declare u) =
     (if length (declared s) < length prog \<and> urn (prog ! length (declared s)) = u
      then Some (s\<lparr>declared := declared s @ [u]\<rparr>) else None)"
| "step prog s (Start u) =
     (if u \<in> set (declared s) \<and> u \<notin> set (started s)
         \<and> list_all (\<lambda>d. d \<in> set (finished s)) (deps_of prog u)
      then Some (s\<lparr>started := u # started s\<rparr>) else None)"
| "step prog s (Finish u) =
     (if u \<in> set (started s) \<and> u \<notin> set (finished s) \<and> u \<notin> set (failed s)
      then Some (s\<lparr>finished := u # finished s\<rparr>) else None)"
| "step prog s (Fail u) =
     (if u \<in> set (started s) \<and> u \<notin> set (finished s) \<and> u \<notin> set (failed s)
      then Some (s\<lparr>failed := u # failed s\<rparr>) else None)"

fun exec :: "resource list \<Rightarrow> engine \<Rightarrow> event list \<Rightarrow> engine option" where
  "exec prog s [] = Some s"
| "exec prog s (e # es) = (case step prog s e of None \<Rightarrow> None | Some s' \<Rightarrow> exec prog s' es)"

definition admissible :: "resource list \<Rightarrow> event list \<Rightarrow> bool" where
  "admissible prog t = (exec prog init t \<noteq> None)"

text \<open>\<open>precedes a b t\<close>: event \<open>b\<close> occurs in \<open>t\<close> only after event \<open>a\<close> has occurred.\<close>

definition precedes :: "event \<Rightarrow> event \<Rightarrow> event list \<Rightarrow> bool" where
  "precedes a b t = (b \<in> set t \<longrightarrow> a \<in> set (takeWhile (\<lambda>e. e \<noteq> b) t))"

text \<open>Building blocks of concrete executions: registering a program, materialising
  resources one after the other, and the run that follows program order.\<close>

definition declare_all :: "resource list \<Rightarrow> event list" where
  "declare_all prog = map (\<lambda>r. Declare (urn r)) prog"

definition run_ok :: "resource list \<Rightarrow> event list" where
  "run_ok rs = concat (map (\<lambda>r. [Start (urn r), Finish (urn r)]) rs)"

definition run_failing :: "resource \<Rightarrow> event list" where
  "run_failing r = [Start (urn r), Fail (urn r)]"

definition in_order :: "resource list \<Rightarrow> event list" where
  "in_order prog = declare_all prog @ run_ok prog"

text \<open>The program as evaluated in the directory \<open>/demo\<close> at clock reading 0.\<close>

definition demo :: "resource list" where
  "demo = pulumiFunction ''/demo'' 0"

text \<open>The arguments and options the program passes to the component, and three concrete
  executions of the program: one where the creation of the compute instance fails, and
  one where the instance is created before the bundle is generated.\<close>

definition test_a :: VmServiceArgs where
  "test_a = test_args ''/demo'' 0"

definition test_o :: vm_options where
  "test_o = test_opts ''/demo'' 0"

definition vm_fails :: "event list" where
  "vm_fails = declare_all demo
     @ run_ok (take 16 demo @ [sshKey ''test''])
     @ run_failing (vm ''test'' test_a test_o)
     @ run_ok [component ''test'', sa ''test'' test_a test_o,
               workloadGroup ''/demo'' ''test'' test_a test_o,
               workDir ''/demo'' ''test'' test_a test_o]"

definition vm_first :: "event list" where
  "vm_first = declare_all demo
     @ run_ok (take 16 demo @ [sshKey ''test'', vm ''test'' test_a test_o,
               component ''test'', sa ''test'' test_a test_o,
               workloadGroup ''/demo'' ''test'' test_a test_o,
               workDir ''/demo'' ''test'' test_a test_o]
               @ drop 22 demo)"

section \<open>vm.ts: the value of the hostname output\<close>

text \<open>
  \<open>pulumi.output(vm.networkInterfaces[0]).apply((netint) =>
     netint.accessConfigs ? netint.accessConfigs[0].natIp : '')\<close>.
  The member \<open>accessConfigs\<close> is optional; an array, even an empty one, is truthy.
  Reading a member of \<open>undefined\<close> raises a \<open>TypeError\<close>: that is what happens when
  there is no first network interface, or when the array of access configs is empty.
\<close>

record accessConfig =
  natIp :: string

record networkInterface =
  accessConfigs :: "accessConfig list option"

datatype js_error = TypeError

definition hostname_value :: "networkInterface list \<Rightarrow> js_error + string" where
  "hostname_value networkInterfaces =
     (case networkInterfaces of
        [] \<Rightarrow> Inl TypeError
      | netint # _ \<Rightarrow>
          (case accessConfigs netint of
             None \<Rightarrow> Inr []
           | Some [] \<Rightarrow> Inl TypeError
           | Some (ac # _) \<Rightarrow> Inr (natIp ac)))"

text \<open>\<open>host: this.hostname\<close>: the host of the remote session, used by every copy and
  every remote command, is the hostname output.\<close>

definition connection_host :: "networkInterface list \<Rightarrow> js_error + string" where
  "connection_host networkInterfaces = hostname_value networkInterfaces"

text \<open>A declaration with its triggers removed: everything that does not come from the
  clock.\<close>

definition untriggered :: "resource \<Rightarrow> resource" where
  "untriggered r = r\<lparr>triggers := []\<rparr>"

text \<open>An execution in which the bundle is generated before the workload-group object is
  created in the cluster.\<close>

definition bundle_first :: "event list" where
  "bundle_first = declare_all demo
     @ run_ok (take 16 demo @ [sa ''test'' test_a test_o,
               workDir ''/demo'' ''test'' test_a test_o,
               workloadGroup ''/demo'' ''test'' test_a test_o])"

section \<open>index.ts: the command-line driver\<close>

text \<open>The command object: its name, its description and the options the program adds to
  it. The help flag that the option parser offers on its own is the parser's, not a
  declaration of the program.\<close>

record command =
  cmd_name :: string
  cmd_description :: string
  cmd_options :: "(string \<times> string) list"

definition cli :: command where
  "cli = \<lparr>cmd_name = ''demo'', cmd_description = ''Provision the demo infra'',
          cmd_options = [(''--destroy'', ''Tear down all the provisioned infra'')]\<rparr>"

text \<open>The calls the action makes on the runtime, with the stack name and project name of
  the first one, and the lines that reach the console: the progress output of the
  runtime, which the action hands to \<open>console.info\<close>, and the summaries the action
  prints itself.\<close>

datatype call = CreateOrSelectStack string string | Cancel | Destroy | Refresh | Up

datatype line = Info string | UpdateSummary nat | DestroySummary nat

text \<open>
  What the runtime answers when called. Selecting, cancelling and refreshing either
  succeed or are rejected with an error; an update and a teardown emit progress output
  and are rejected with an error or return the number of resources they changed. The
  runtime is not part of the repository: its answers are inputs of the action.
\<close>

type_synonym error = string

record world =
  w_select :: "error option"
  w_cancel :: "error option"
  w_refresh :: "error option"
  w_up_output :: "string list"
  w_up :: "error + nat"
  w_destroy_output :: "string list"
  w_destroy :: "error + nat"

text \<open>What one run of the action leaves behind: the calls made, the lines printed and
  the result of the action's promise.\<close>

record process =
  calls :: "call list"
  console :: "line list"
  result :: "error + unit"

text \<open>The action of the command, for the value of \<open>opts.destroy\<close>. Each \<open>await\<close> on a
  rejected call ends the action with that error; the \<open>try\<close> around the teardown
  rethrows what it catches.\<close>

definition action :: "bool \<Rightarrow> world \<Rightarrow> process" where
  "action destroy w =
     (case w_select w of
        Some e \<Rightarrow>
          \<lparr>calls = [CreateOrSelectStack ''demo'' ''demo''], console = [], result = Inl e\<rparr>
      | None \<Rightarrow>
     (case w_cancel w of
        Some e \<Rightarrow>
          \<lparr>calls = [CreateOrSelectStack ''demo'' ''demo'', Cancel], console = [],
           result = Inl e\<rparr>
      | None \<Rightarrow>
     if destroy then
       (case w_destroy w of
          Inl e \<Rightarrow>
            \<lparr>calls = [CreateOrSelectStack ''demo'' ''demo'', Cancel, Destroy],
             console = map Info (w_destroy_output w), result = Inl e\<rparr>
        | Inr n \<Rightarrow>
            \<lparr>calls = [CreateOrSelectStack ''demo'' ''demo'', Cancel, Destroy],
             console = map Info (w_destroy_output w) @ [DestroySummary n], result = Inr ()\<rparr>)
     else
     (case w_refresh w of
        Some e \<Rightarrow>
          \<lparr>calls = [CreateOrSelectStack ''demo'' ''demo'', Cancel, Refresh], console = [],
           result = Inl e\<rparr>
      | None \<Rightarrow>
     (case w_up w of
        Inl e \<Rightarrow>
          \<lparr>calls = [CreateOrSelectStack ''demo'' ''demo'', Cancel, Refresh, Up],
           console = map Info (w_up_output w), result = Inl e\<rparr>
      | Inr n \<Rightarrow>
          \<lparr>calls = [CreateOrSelectStack ''demo'' ''demo'', Cancel, Refresh, Up],
           console = map Info (w_up_output w) @ [UpdateSummary n], result = Inr ()\<rparr>))))"

text \<open>\<open>cli.parse\<close> does not await the action's promise; a rejection is unhandled and
  ends the process with status 1 and the error on the error stream.\<close>

definition exit_code :: "process \<Rightarrow> nat" where
  "exit_code p = (case result p of Inl e \<Rightarrow> 1 | Inr u \<Rightarrow> 0)"

definition surfaced :: "process \<Rightarrow> error option" where
  "surfaced p = (case result p of Inl e \<Rightarrow> Some e | Inr u \<Rightarrow> None)"

text \<open>
  Modelled from the spec: the order of a teardown is the runtime's. By section 4.2 of
  the specification it removes the resources in the reverse of the order in which they
  are applied, here the reverse of program order.
  \<open>dependents_first prog order\<close> checks that in \<open>order\<close> every resource comes strictly
  before each resource it waits for.
\<close>

definition destroy_order :: "resource list \<Rightarrow> urn list" where
  "destroy_order prog = rev (map urn prog)"

definition dependents_first :: "resource list \<Rightarrow> urn list \<Rightarrow> bool" where
  "dependents_first prog order =
     list_all (\<lambda>r. list_all (\<lambda>d. d \<in> set (tl (dropWhile (\<lambda>u. u \<noteq> urn r) order)))
                  (all_deps r)) prog"

text \<open>Worlds for each way a run can go.\<close>

definition world_ok :: world where
  "world_ok = \<lparr>w_select = None, w_cancel = None, w_refresh = None,
               w_up_output = [''Updating (demo)''], w_up = Inr 31,
               w_destroy_output = [''Destroying (demo)''], w_destroy = Inr 31\<rparr>"

definition world_no_stack :: world where
  "world_no_stack = world_ok\<lparr>w_select := Some ''no backend''\<rparr>"

definition world_no_cancel :: world where
  "world_no_cancel = world_ok\<lparr>w_cancel := Some ''cancel refused''\<rparr>"

definition world_no_refresh :: world where
  "world_no_refresh = world_ok\<lparr>w_refresh := Some ''refresh refused''\<rparr>"

definition world_failing :: world where
  "world_failing = world_ok\<lparr>w_up := Inl ''update failed'', w_destroy := Inl ''destroy failed''\<rparr>"

section \<open>The local scripts and the working directory\<close>

text \<open>
  The \<open>create\<close> scripts of the two local commands write into the working directory.
  A file system is a list of directories and a list of files; a file is identified by
  its directory and its name and carries a mode. The contents of the files play no part
  here. Paths are compared as written: every directory is taken to be named by one
  absolute path without a trailing slash.
\<close>

type_synonym path = string

record filesystem =
  dirs :: "path list"
  entries :: "((path \<times> string) \<times> nat) list"

text \<open>The directory and the last component of a path, and a word of a command read as
  a path: absolute when it starts with a slash, else below the current directory.\<close>

definition split_last :: "path \<Rightarrow> path \<times> string" where
  "split_last p =
     (rev (drop 1 (dropWhile (\<lambda>c. c \<noteq> CHR ''/'') (rev p))),
      rev (takeWhile (\<lambda>c. c \<noteq> CHR ''/'') (rev p)))"

definition resolve :: "path \<Rightarrow> string \<Rightarrow> path" where
  "resolve dir w = (if w \<noteq> [] \<and> hd w = CHR ''/'' then w else dir @ ''/'' @ w)"

text \<open>A path together with the directories above it, as \<open>mkdir -p\<close> creates them.\<close>

definition ancestors :: "path \<Rightarrow> path list" where
  "ancestors p = map (\<lambda>i. take i p) (filter (\<lambda>i. p ! i = CHR ''/'') [1..<length p]) @ [p]"

definition is_file :: "filesystem \<Rightarrow> path \<Rightarrow> bool" where
  "is_file fsys p = (map_of (entries fsys) (split_last p) \<noteq> None)"

fun put :: "'k \<Rightarrow> 'v \<Rightarrow> ('k \<times> 'v) list \<Rightarrow> ('k \<times> 'v) list" where
  "put k v [] = [(k, v)]"
| "put k v (e # es) = (if fst e = k then (k, v) # es else e # put k v es)"

text \<open>Creating or truncating a file: an existing file keeps its mode, a new one gets the
  mode \<open>m\<close>.\<close>

definition write_file :: "nat \<Rightarrow> path \<times> string \<Rightarrow> filesystem \<Rightarrow> filesystem" where
  "write_file m k fsys =
     fsys\<lparr>entries :=
       put k (case map_of (entries fsys) k of None \<Rightarrow> m | Some m' \<Rightarrow> m') (entries fsys)\<rparr>"

text \<open>\<open>chmod m w1 ... wn\<close> changes every word that names a file, accepts a directory,
  and reports failure when some word names neither.\<close>

fun chmod_all :: "nat \<Rightarrow> path \<Rightarrow> string list \<Rightarrow> filesystem \<Rightarrow> filesystem \<times> bool" where
  "chmod_all m dir [] fsys = (fsys, True)"
| "chmod_all m dir (w # ws) fsys =
     (if is_file fsys (resolve dir w)
      then chmod_all m dir ws
             (fsys\<lparr>entries := put (split_last (resolve dir w)) m (entries fsys)\<rparr>)
      else (fst (chmod_all m dir ws fsys),
            snd (chmod_all m dir ws fsys) \<and> resolve dir w \<in> set (dirs fsys)))"

text \<open>\<open>mkdir -p\<close>, \<open>cd\<close>, a redirection \<open>> word\<close>, \<open>chmod\<close>, and the call of the
  bundle-expansion tool \<open>istioctl x workload entry configure -f file -o dir\<close>.\<close>

datatype cmd =
    MkdirP string
  | Cd string
  | WriteTo string
  | Chmod nat "string list"
  | Istioctl string string

text \<open>The state of a shell: current directory, file system, status of the last command,
  the mode given to new files, and whether the external tool succeeds when called.\<close>

record shell =
  cwd :: path
  fs :: filesystem
  status :: nat
  new_mode :: nat
  istioctl_ok :: bool

text \<open>
  \<open>mkdir -p\<close> fails when the path or a directory above it is a file. A redirection
  fails, and the command is not run, when the directory of the target does not exist
  or the target is a directory. \<open>cd\<close> fails on a missing directory.

  Modelled from the spec: the bundle-expansion tool is an external program. By sections
  3 and 6 of the specification it expands the descriptor into the bundle files
  \<open>cluster.env\<close>, \<open>istio-token\<close>, \<open>mesh.yaml\<close>, \<open>root-cert.pem\<close> and \<open>hosts\<close>, the
  files that \<open>vm.ts\<close> copies afterwards. It is taken to need the descriptor and the
  output directory.
\<close>

fun run_cmd :: "shell \<Rightarrow> cmd \<Rightarrow> shell" where
  "run_cmd sh (MkdirP w) =
     (if list_ex (is_file (fs sh)) (ancestors (resolve (cwd sh) w))
      then sh\<lparr>status := 1\<rparr>
      else sh\<lparr>fs := (fs sh)\<lparr>dirs := List.union (dirs (fs sh)) (ancestors (resolve (cwd sh) w))\<rparr>,
              status := 0\<rparr>)"
| "run_cmd sh (Cd w) =
     (if resolve (cwd sh) w \<in> set (dirs (fs sh))
      then sh\<lparr>cwd := resolve (cwd sh) w, status := 0\<rparr>
      else sh\<lparr>status := 1\<rparr>)"
| "run_cmd sh (WriteTo w) =
     (if snd (split_last (resolve (cwd sh) w)) \<noteq> []
         \<and> fst (split_last (resolve (cwd sh) w)) \<in> set (dirs (fs sh))
         \<and> resolve (cwd sh) w \<notin> set (dirs (fs sh))
      then sh\<lparr>fs := write_file (new_mode sh) (split_last (resolve (cwd sh) w)) (fs sh),
              status := 0\<rparr>
      else sh\<lparr>status := 1\<rparr>)"
| "run_cmd sh (Chmod m ws) =
     sh\<lparr>fs := fst (chmod_all m (cwd sh) ws (fs sh)),
        status := (if snd (chmod_all m (cwd sh) ws (fs sh)) then 0 else 1)\<rparr>"
| "run_cmd sh (Istioctl f out) =
     (if istioctl_ok sh \<and> is_file (fs sh) (resolve (cwd sh) f)
         \<and> resolve (cwd sh) out \<in> set (dirs (fs sh))
      then sh\<lparr>fs := foldl (\<lambda>fsys n. write_file (new_mode sh) (resolve (cwd sh) out, n) fsys)
                         (fs sh) files,
              status := 0\<rparr>
      else sh\<lparr>status := 1\<rparr>)"

text \<open>The scripts run without \<open>set -e\<close>: every command runs, and the status of the
  script is the status of its last command.\<close>

definition run_script :: "cmd list \<Rightarrow> shell \<Rightarrow> shell" where
  "run_script script sh = foldl run_cmd sh script"

text \<open>
  A local command succeeds when its script ends with status 0; it runs in a process of
  its own, so the current directory of the caller is unchanged. \<open>Unmodelled\<close> stands
  for a script whose text the model does not interpret (see \<open>shell_words\<close> below).
\<close>

datatype 'a outcome = Done 'a | Failed | Unmodelled

definition local_Command :: "cmd list option \<Rightarrow> shell \<Rightarrow> shell outcome" where
  "local_Command script sh =
     (case script of
        None \<Rightarrow> Unmodelled
      | Some cmds \<Rightarrow>
          if status (run_script cmds sh) = 0
          then Done ((run_script cmds sh)\<lparr>cwd := cwd sh\<rparr>)
          else Failed)"

fun and_then :: "'a outcome \<Rightarrow> ('a \<Rightarrow> 'b outcome) \<Rightarrow> 'b outcome" where
  "and_then (Done x) f = f x"
| "and_then Failed f = Failed"
| "and_then Unmodelled f = Unmodelled"

text \<open>
  The script of the bundle command names the working directory through the quoted
  environment variable \<open>"${WORK_DIR}"\<close>, so the directory is one word whatever its
  path is.
\<close>

definition workDir_create :: "string \<Rightarrow> string \<Rightarrow> cmd list option" where
  "workDir_create dirname name =
     Some [MkdirP (WORK_DIR dirname name),
           Cd (WORK_DIR dirname name),
           WriteTo ''workloadgroup.yaml'',
           Istioctl ''workloadgroup.yaml'' (WORK_DIR dirname name)]"

text \<open>
  The script of the debug snapshot is built by a template literal that pastes the path
  of the working directory into the text, unquoted:
  \<open>echo "$SSHKEY" > ${WORK_DIR}/key\<close>, \<open>chmod 0600 ${WORK_DIR}/key\<close>,
  \<open>echo "$HOSTNAME" > ${WORK_DIR}/hostname\<close>. The shell splits the pasted text into
  words at blanks. The first word is the target of the redirection, and further words
  are arguments of \<open>echo\<close>; \<open>chmod\<close> is applied to every word.

  \<open>shell_words\<close> reads a pasted text made of letters, digits, \<open>/\<close>, \<open>.\<close>, \<open>_\<close>, \<open>-\<close>
  and blanks, whose words are paths in normal form (no empty, \<open>.\<close> or \<open>..\<close> component)
  and do not start with \<open>-\<close>. Any other text, with characters that the shell expands or
  treats as operators, is outside the model: \<open>None\<close>.
\<close>

definition plain :: "char \<Rightarrow> bool" where
  "plain c =
     (c \<in> set ''abcdefghijklmnopqrstuvwxyzABCDEFGHIJKLMNOPQRSTUVWXYZ0123456789/._-'')"

definition blank :: "char \<Rightarrow> bool" where
  "blank c = (c = CHR '' '' \<or> c = CHR 0x09)"

fun fields_from :: "(char \<Rightarrow> bool) \<Rightarrow> string \<Rightarrow> string \<Rightarrow> string list" where
  "fields_from sep cur [] = [cur]"
| "fields_from sep cur (c # cs) =
     (if sep c then cur # fields_from sep [] cs else fields_from sep (cur @ [c]) cs)"

definition split_blanks :: "string \<Rightarrow> string list" where
  "split_blanks s = filter (\<lambda>w. w \<noteq> []) (fields_from blank [] s)"

definition normal :: "string \<Rightarrow> bool" where
  "normal w =
     (let cs = fields_from (\<lambda>c. c = CHR ''/'') [] w in
      w \<noteq> [] \<and> hd w \<noteq> CHR ''-''
      \<and> list_all (\<lambda>c. c \<noteq> ''.'' \<and> c \<noteq> ''..'') cs
      \<and> list_all (\<lambda>c. c \<noteq> []) (tl cs))"

definition shell_words :: "string \<Rightarrow> string list option" where
  "shell_words s =
     (if list_all (\<lambda>c. plain c \<or> blank c) s \<and> list_all normal (split_blanks s)
      then Some (split_blanks s) else None)"

definition keyOnDisk_create :: "string \<Rightarrow> string \<Rightarrow> cmd list option" where
  "keyOnDisk_create dirname name =
     (case (shell_words (WORK_DIR dirname name @ ''/key''),
            shell_words (WORK_DIR dirname name @ ''/hostname'')) of
        (Some (k # ks), Some (h # hs)) \<Rightarrow> Some [WriteTo k, Chmod 384 (k # ks), WriteTo h]
      | _ \<Rightarrow> None)"

text \<open>The names in a directory: its files and its subdirectories.\<close>

definition files_in :: "path \<Rightarrow> filesystem \<Rightarrow> string list" where
  "files_in d fsys = map (\<lambda>e. snd (fst e)) (filter (\<lambda>e. fst (fst e) = d) (entries fsys))"

definition subdirs :: "path \<Rightarrow> filesystem \<Rightarrow> string list" where
  "subdirs d fsys =
     map (\<lambda>p. snd (split_last p))
       (filter (\<lambda>p. fst (split_last p) = d \<and> snd (split_last p) \<noteq> []) (dirs fsys))"

definition listing :: "path \<Rightarrow> filesystem \<Rightarrow> string list" where
  "listing d fsys = files_in d fsys @ subdirs d fsys"


text \<open>The two local commands of one apply. Neither waits for the other, so the resolver
  may run them in either order; the first failure ends the apply.\<close>

definition apply_local :: "bool \<Rightarrow> string \<Rightarrow> string \<Rightarrow> shell \<Rightarrow> shell outcome" where
  "apply_local snapshot_first dirname name sh =
     (if snapshot_first
      then and_then (local_Command (keyOnDisk_create dirname name) sh)
             (local_Command (workDir_create dirname name))
      else and_then (local_Command (workDir_create dirname name) sh)
             (local_Command (keyOnDisk_create dirname name)))"

text \<open>The working directory is an absolute path that the shell reads as one word.\<close>

definition one_word :: "path \<Rightarrow> bool" where
  "one_word p = (hd p = CHR ''/'' \<and> shell_words (p @ ''/key'') = Some [p @ ''/key'']
                 \<and> shell_words (p @ ''/hostname'') = Some [p @ ''/hostname''])"

text \<open>A machine on which the program lives in \<open>/demo\<close>, and one on which it lives in a
  directory with a blank in its name; the apply for the workload \<open>test\<close> on each.\<close>

definition fresh :: shell where
  "fresh = \<lparr>cwd = ''/demo'', fs = \<lparr>dirs = [''/demo''], entries = []\<rparr>, status = 0,
            new_mode = 420, istioctl_ok = True\<rparr>"


definition fresh_blank :: shell where
  "fresh_blank = \<lparr>cwd = ''/tmp/v/my demo'',
            fs = \<lparr>dirs = [''/tmp'', ''/tmp/v'', ''/tmp/v/my demo''], entries = []\<rparr>,
            status = 0, new_mode = 420, istioctl_ok = True\<rparr>"

definition applied_blank :: "shell outcome" where
  "applied_blank = apply_local False ''/tmp/v/my demo'' ''test'' fresh_blank"

fun fs_of :: "shell outcome \<Rightarrow> filesystem option" where
  "fs_of (Done sh) = Some (fs sh)"
| "fs_of Failed = None"
| "fs_of Unmodelled = None"

section \<open>Properties of the resolver\<close>

lemma exec_append:
  "exec prog s (xs @ ys) = (case exec prog s xs of None \<Rightarrow> None | Some s' \<Rightarrow> exec prog s' ys)"
  by (induction xs arbitrary: s) (auto split: option.splits)

lemma step_finished:
  "step prog s e = Some s' \<Longrightarrow> set (finished s') = set (finished s) \<union> {u. e = Finish u}"
  by (cases e) (auto split: if_splits)

lemma step_failed:
  "step prog s e = Some s' \<Longrightarrow> set (failed s') = set (failed s) \<union> {u. e = Fail u}"
  by (cases e) (auto split: if_splits)

lemma step_started:
  "step prog s e = Some s' \<Longrightarrow> set (started s') = set (started s) \<union> {u. e = Start u}"
  by (cases e) (auto split: if_splits)

lemma step_declared:
  "step prog s e = Some s' \<Longrightarrow> set (declared s') = set (declared s) \<union> {u. e = Declare u}"
  by (cases e) (auto split: if_splits)

lemma exec_ConsE:
  assumes "exec prog s (e # es) = Some s'"
  obtains s1 where "step prog s e = Some s1" and "exec prog s1 es = Some s'"
  using assms by (auto split: option.splits)

lemma exec_finished:
  "exec prog s t = Some s' \<Longrightarrow> set (finished s') = set (finished s) \<union> {u. Finish u \<in> set t}"
proof (induction t arbitrary: s)
  case Nil
  then show ?case by simp
next
  case (Cons e es)
  from Cons.prems obtain s1 where s1: "step prog s e = Some s1"
    and r: "exec prog s1 es = Some s'" by (rule exec_ConsE)
  from Cons.IH [OF r] step_finished [OF s1] show ?case by auto
qed

lemma exec_failed:
  "exec prog s t = Some s' \<Longrightarrow> set (failed s') = set (failed s) \<union> {u. Fail u \<in> set t}"
proof (induction t arbitrary: s)
  case Nil
  then show ?case by simp
next
  case (Cons e es)
  from Cons.prems obtain s1 where s1: "step prog s e = Some s1"
    and r: "exec prog s1 es = Some s'" by (rule exec_ConsE)
  from Cons.IH [OF r] step_failed [OF s1] show ?case by auto
qed

lemma exec_declared:
  "exec prog s t = Some s' \<Longrightarrow> set (declared s') = set (declared s) \<union> {u. Declare u \<in> set t}"
proof (induction t arbitrary: s)
  case Nil
  then show ?case by simp
next
  case (Cons e es)
  from Cons.prems obtain s1 where s1: "step prog s e = Some s1"
    and r: "exec prog s1 es = Some s'" by (rule exec_ConsE)
  from Cons.IH [OF r] step_declared [OF s1] show ?case by auto
qed

text \<open>Splitting an admissible execution at one of its events.\<close>

lemma admissible_split:
  assumes "admissible prog (pre @ e # post)"
  obtains s s' where "exec prog init pre = Some s" and "step prog s e = Some s'"
  using assms unfolding admissible_def
  by (auto simp: exec_append split: option.splits)

lemma start_after_deps:
  assumes adm: "admissible prog (pre @ Start u # post)"
    and d: "d \<in> set (deps_of prog u)"
  shows "Finish d \<in> set pre"
proof -
  from adm obtain s s' where s: "exec prog init pre = Some s"
    and st: "step prog s (Start u) = Some s'"
    by (rule admissible_split)
  from st d have "d \<in> set (finished s)"
    by (auto simp: list_all_iff split: if_splits)
  with exec_finished [OF s] show ?thesis by (simp add: init_def)
qed

lemma precedesI:
  assumes "\<And>pre post. t = pre @ b # post \<Longrightarrow> a \<in> set pre"
  shows "precedes a b t"
  unfolding precedes_def
proof
  assume b: "b \<in> set t"
  let ?pre = "takeWhile (\<lambda>e. e \<noteq> b) t" and ?rest = "dropWhile (\<lambda>e. e \<noteq> b) t"
  from b have "?rest \<noteq> []" by (auto simp: dropWhile_eq_Nil_conv)
  moreover from this have "hd ?rest = b" using hd_dropWhile [of "\<lambda>e. e \<noteq> b" t] by simp
  ultimately have "?rest = b # tl ?rest" by (cases ?rest) auto
  then have "t = ?pre @ b # tl ?rest"
    using takeWhile_dropWhile_id [of "\<lambda>e. e \<noteq> b" t] by simp
  then show "a \<in> set ?pre" by (rule assms)
qed

lemma start_precedes:
  assumes "admissible prog t" and "d \<in> set (deps_of prog u)"
  shows "precedes (Finish d) (Start u) t"
  using assms by (intro precedesI) (auto intro: start_after_deps)

lemma started_deps_finished:
  assumes adm: "admissible prog t" and st: "Start u \<in> set t"
    and d: "d \<in> set (deps_of prog u)"
  shows "Finish d \<in> set t"
proof -
  from start_precedes [OF adm d] st
  have "Finish d \<in> set (takeWhile (\<lambda>e. e \<noteq> Start u) t)" by (simp add: precedes_def)
  then show ?thesis by (rule set_takeWhileD [THEN conjunct1])
qed

text \<open>With unique resource names, a declared resource waits for exactly what its own
  declaration lists.\<close>

lemma deps_of_member:
  "distinct (map urn prog) \<Longrightarrow> r \<in> set prog \<Longrightarrow> deps_of prog (urn r) = all_deps r"
proof (induction prog)
  case Nil
  then show ?case by simp
next
  case (Cons x xs)
  show ?case
  proof (cases "urn x = urn r")
    case True
    with Cons.prems have "x = r" by (auto simp: image_iff)
    then show ?thesis by (simp add: deps_of_def)
  next
    case False
    with Cons have "deps_of xs (urn r) = all_deps r" by auto
    with False show ?thesis by (simp add: deps_of_def)
  qed
qed

text \<open>A resource ends at most once: it never both fails and finishes.\<close>

lemma step_disjoint:
  "step prog s e = Some s' \<Longrightarrow> set (finished s) \<inter> set (failed s) = {}
   \<Longrightarrow> set (finished s') \<inter> set (failed s') = {}"
  by (cases e) (auto split: if_splits)

lemma exec_disjoint:
  "exec prog s t = Some s' \<Longrightarrow> set (finished s) \<inter> set (failed s) = {}
   \<Longrightarrow> set (finished s') \<inter> set (failed s') = {}"
proof (induction t arbitrary: s)
  case Nil
  then show ?case by simp
next
  case (Cons e es)
  from Cons.prems(1) obtain s1 where s1: "step prog s e = Some s1"
    and r: "exec prog s1 es = Some s'" by (rule exec_ConsE)
  from Cons.IH [OF r step_disjoint [OF s1 Cons.prems(2)]] show ?case .
qed

lemma failed_not_finished:
  assumes "admissible prog t" and "Fail u \<in> set t"
  shows "Finish u \<notin> set t"
proof -
  from assms(1) obtain s where s: "exec prog init t = Some s"
    by (auto simp: admissible_def)
  from exec_disjoint [OF s] have "set (finished s) \<inter> set (failed s) = {}"
    by (simp add: init_def)
  with exec_finished [OF s] exec_failed [OF s] assms(2) show ?thesis
    by (auto simp: init_def)
qed

section \<open>What each step of the workload join waits for\<close>

lemma VmService_members:
  "sa name args opts \<in> set (VmService dirname name args opts)"
  "workloadGroup dirname name args opts \<in> set (VmService dirname name args opts)"
  "workDir dirname name args opts \<in> set (VmService dirname name args opts)"
  "sshKey name \<in> set (VmService dirname name args opts)"
  "vm name args opts \<in> set (VmService dirname name args opts)"
  "keyOnDisk name args opts \<in> set (VmService dirname name args opts)"
  "f \<in> set files \<Longrightarrow> copyFile dirname name args opts f \<in> set (VmService dirname name args opts)"
  "dockerSetup name args opts \<in> set (VmService dirname name args opts)"
  "dockerRun name args opts \<in> set (VmService dirname name args opts)"
  "configure dirname name args opts \<in> set (VmService dirname name args opts)"
  by (simp_all add: VmService_def remoteFiles_def)

lemma connection_deps:
  "concat (map (\<lambda>kv. input_deps (snd kv)) (connection name args opts))
     = [urn (vm name args opts), urn (sshKey name)]"
  by (simp add: connection_def hostname_def)

lemma copyFile_deps:
  "all_deps (copyFile dirname name args opts f)
     = [urn (vm name args opts), urn (sshKey name), urn (vm name args opts),
        urn (workDir dirname name args opts)]"
  by (simp add: all_deps_def prop_deps_def copyFile_def connection_deps no_opts_def)

lemma dockerSetup_deps:
  "all_deps (dockerSetup name args opts) = [urn (vm name args opts), urn (sshKey name)]"
  by (simp add: all_deps_def prop_deps_def dockerSetup_def connection_deps no_opts_def)

lemma dockerRun_deps:
  "all_deps (dockerRun name args opts)
     = [urn (vm name args opts), urn (sshKey name), urn (dockerSetup name args opts)]"
  by (simp add: all_deps_def prop_deps_def dockerRun_def connection_deps no_opts_def)

lemma configure_deps:
  "all_deps (configure dirname name args opts)
     = [urn (vm name args opts), urn (sshKey name)]
       @ map (\<lambda>f. urn (copyFile dirname name args opts f)) files
       @ [urn (dockerRun name args opts)]"
  by (simp add: all_deps_def prop_deps_def configure_def connection_deps no_opts_def
      remoteFiles_def comp_def)

text \<open>The names of the declared resources do not depend on the directory or the clock.\<close>

lemma pulumiFunction_urns:
  "map urn (pulumiFunction dirname now) =
     [(Project, ''project''), (Service, ''gke''), (Network, ''network''),
      (Subnetwork, ''subnet''), (Cluster, ''cluster''), (LocalCommand, ''kc''),
      (K8sProvider, ''k8s''), (Namespace, ''istio-system''), (Chart, ''istio-base''),
      (Chart, ''istio-istiod''), (Chart, ''istio-eastwestgateway''),
      (Gateway, ''istiod-gateway''), (VirtualService, ''istiod-vs''),
      (Gateway, ''cross-network-gateway''), (Firewall, ''firewall''),
      (Namespace, ''on-prem''), (VmServiceComponent, ''test''), (ServiceAccount, ''test''),
      (WorkloadGroup, ''test''), (LocalCommand, ''test''), (PrivateKey, ''test''),
      (Instance, ''test''), (LocalCommand, ''test-key''), (CopyFile, ''test-cluster.env''),
      (CopyFile, ''test-istio-token''), (CopyFile, ''test-mesh.yaml''),
      (CopyFile, ''test-root-cert.pem''), (CopyFile, ''test-hosts''),
      (RemoteCommand, ''test-docker-setup''), (RemoteCommand, ''test-docker-run''),
      (RemoteCommand, ''test-configure'')]"
  by (simp add: pulumiFunction_def VmService_def remoteFiles_def files_def urn_def
      projectRes_def containerService_def network_def subnet_def gke_def localKc_def
      k8sProvider_def istioNamespace_def base_def istiod_def ewgw_def istiodgw_def
      istiodvs_def crossNetworkGateway_def firewall_def onpremns_def component_def sa_def
      workloadGroup_def workDir_def sshKey_def vm_def keyOnDisk_def copyFile_def
      dockerSetup_def dockerRun_def configure_def Let_def)

lemma pulumiFunction_distinct: "distinct (map urn (pulumiFunction dirname now))"
  unfolding pulumiFunction_urns by simp

lemma demo_VmService:
  "set (VmService ''/demo'' ''test'' (test_args ''/demo'' 0) (test_opts ''/demo'' 0)) \<subseteq> set demo"
  by (auto simp: demo_def pulumiFunction_def)

lemma demo_in_order: "admissible demo (in_order demo)"
  by code_simp

lemma demo_distinct: "distinct (map urn demo)"
  by (simp add: demo_def pulumiFunction_distinct)

lemma VmService_deps_of:
  assumes "distinct (map urn prog)"
    and "set (VmService dirname name args opts) \<subseteq> set prog"
    and "r \<in> set (VmService dirname name args opts)"
  shows "deps_of prog (urn r) = all_deps r"
  using assms by (intro deps_of_member) auto

lemma VmService_waits:
  assumes dist: "distinct (map urn prog)"
    and sub: "set (VmService dirname name args opts) \<subseteq> set prog"
    and adm: "admissible prog t"
    and r: "r \<in> set (VmService dirname name args opts)"
    and d: "d \<in> set (all_deps r)"
  shows "precedes (Finish d) (Start (urn r)) t"
proof -
  have "deps_of prog (urn r) = all_deps r"
    using dist sub r by (rule VmService_deps_of)
  with d have "d \<in> set (deps_of prog (urn r))" by simp
  with adm show ?thesis by (rule start_precedes)
qed

text \<open>
  Claim C2. In every execution, the mesh sidecar configuration starts only after each of
  the five bundle files has been copied to the remote workload and after the workload
  process has been launched.
\<close>

theorem configure_after_copies_and_launch:
  assumes dist: "distinct (map urn prog)"
    and sub: "set (VmService dirname name args opts) \<subseteq> set prog"
    and adm: "admissible prog t"
  shows "(\<forall>f \<in> set files.
            precedes (Finish (urn (copyFile dirname name args opts f)))
                     (Start (urn (configure dirname name args opts))) t)
         \<and> precedes (Finish (urn (dockerRun name args opts)))
                     (Start (urn (configure dirname name args opts))) t"
proof -
  have "precedes (Finish d) (Start (urn (configure dirname name args opts))) t"
    if "d \<in> set (all_deps (configure dirname name args opts))" for d
    using dist sub adm VmService_members(10) that by (rule VmService_waits)
  then show ?thesis by (simp add: configure_deps)
qed

text \<open>The run in program order starts the configuration, after the five copies and the
  launch have finished.\<close>

theorem configure_after_copies_and_launch_witness:
  "admissible demo (in_order demo)
   \<and> Start (RemoteCommand, ''test-configure'') \<in> set (in_order demo)
   \<and> Finish (CopyFile, ''test-cluster.env'')
        \<in> set (takeWhile (\<lambda>e. e \<noteq> Start (RemoteCommand, ''test-configure'')) (in_order demo))
   \<and> Finish (CopyFile, ''test-istio-token'')
        \<in> set (takeWhile (\<lambda>e. e \<noteq> Start (RemoteCommand, ''test-configure'')) (in_order demo))
   \<and> Finish (CopyFile, ''test-mesh.yaml'')
        \<in> set (takeWhile (\<lambda>e. e \<noteq> Start (RemoteCommand, ''test-configure'')) (in_order demo))
   \<and> Finish (CopyFile, ''test-root-cert.pem'')
        \<in> set (takeWhile (\<lambda>e. e \<noteq> Start (RemoteCommand, ''test-configure'')) (in_order demo))
   \<and> Finish (CopyFile, ''test-hosts'')
        \<in> set (takeWhile (\<lambda>e. e \<noteq> Start (RemoteCommand, ''test-configure'')) (in_order demo))
   \<and> Finish (RemoteCommand, ''test-docker-run'')
        \<in> set (takeWhile (\<lambda>e. e \<noteq> Start (RemoteCommand, ''test-configure'')) (in_order demo))"
proof -
  have st: "Start (RemoteCommand, ''test-configure'') \<in> set (in_order demo)"
    by code_simp
  from configure_after_copies_and_launch [OF demo_distinct demo_VmService demo_in_order] st
  show ?thesis
    using demo_in_order
    by (simp add: precedes_def files_def urn_def configure_def copyFile_def dockerRun_def)
qed

lemma demo_VmService': "set (VmService ''/demo'' ''test'' test_a test_o) \<subseteq> set demo"
  using demo_VmService by (simp add: test_a_def test_o_def)

lemma vm_deps:
  "urn (sshKey name) \<in> set (all_deps (vm name args opts))"
  by (simp add: all_deps_def prop_deps_def vm_def interpolate_def)

lemma workDir_deps:
  "urn (sa name args opts) \<in> set (all_deps (workDir dirname name args opts))"
  by (simp add: all_deps_def workDir_def no_opts_def)

text \<open>
  Claim C1. For every workload: in every execution in which the creation of the compute
  instance fails, none of the five bundle-file copies, the runtime installation, the
  workload process launch and the mesh sidecar configuration is ever started, so nothing
  is done on the remote side.
\<close>

theorem no_remote_step_without_vm:
  assumes dist: "distinct (map urn prog)"
    and sub: "set (VmService dirname name args opts) \<subseteq> set prog"
    and adm: "admissible prog t"
    and fail: "Fail (urn (vm name args opts)) \<in> set t"
  shows "(\<forall>f \<in> set files. Start (urn (copyFile dirname name args opts f)) \<notin> set t)
         \<and> Start (urn (dockerSetup name args opts)) \<notin> set t
         \<and> Start (urn (dockerRun name args opts)) \<notin> set t
         \<and> Start (urn (configure dirname name args opts)) \<notin> set t"
proof -
  have nofin: "Finish (urn (vm name args opts)) \<notin> set t"
    using adm fail by (rule failed_not_finished)
  have blocked: "Start (urn r) \<notin> set t"
    if "r \<in> set (VmService dirname name args opts)"
      and "urn (vm name args opts) \<in> set (all_deps r)" for r
  proof
    assume st: "Start (urn r) \<in> set t"
    have "deps_of prog (urn r) = all_deps r"
      using dist sub that(1) by (rule VmService_deps_of)
    with that(2) have "urn (vm name args opts) \<in> set (deps_of prog (urn r))" by simp
    with adm st have "Finish (urn (vm name args opts)) \<in> set t"
      by (rule started_deps_finished)
    with nofin show False by contradiction
  qed
  have "Start (urn (copyFile dirname name args opts f)) \<notin> set t" if "f \<in> set files" for f
    using that by (intro blocked VmService_members) (simp_all add: copyFile_deps)
  moreover have "Start (urn (dockerSetup name args opts)) \<notin> set t"
    by (intro blocked VmService_members) (simp add: dockerSetup_deps)
  moreover have "Start (urn (dockerRun name args opts)) \<notin> set t"
    by (intro blocked VmService_members) (simp add: dockerRun_deps)
  moreover have "Start (urn (configure dirname name args opts)) \<notin> set t"
    by (intro blocked VmService_members) (simp add: configure_deps)
  ultimately show ?thesis by blast
qed

lemma vm_fails_admissible: "admissible demo vm_fails"
  by code_simp

text \<open>The execution \<open>vm_fails\<close> of the program satisfies the hypotheses of C1: the instance
  fails, the branches that do not need it still run, and no remote step starts.\<close>

theorem no_remote_step_without_vm_witness:
  "admissible demo vm_fails
   \<and> Fail (Instance, ''test'') \<in> set vm_fails
   \<and> Start (CopyFile, ''test-cluster.env'') \<notin> set vm_fails
   \<and> Start (CopyFile, ''test-istio-token'') \<notin> set vm_fails
   \<and> Start (CopyFile, ''test-mesh.yaml'') \<notin> set vm_fails
   \<and> Start (CopyFile, ''test-root-cert.pem'') \<notin> set vm_fails
   \<and> Start (CopyFile, ''test-hosts'') \<notin> set vm_fails
   \<and> Start (RemoteCommand, ''test-docker-setup'') \<notin> set vm_fails
   \<and> Start (RemoteCommand, ''test-docker-run'') \<notin> set vm_fails
   \<and> Start (RemoteCommand, ''test-configure'') \<notin> set vm_fails"
proof -
  have f: "Fail (urn (vm ''test'' test_a test_o)) \<in> set vm_fails"
    by code_simp
  from no_remote_step_without_vm [OF demo_distinct demo_VmService' vm_fails_admissible f] f
  show ?thesis
    using vm_fails_admissible
    by (simp add: files_def urn_def configure_def copyFile_def dockerRun_def dockerSetup_def
        vm_def)
qed

text \<open>
  Claim C3, as amended. In every execution, key generation has finished before the
  creation of the compute instance starts. Bundle generation is not ordered with respect
  to the creation of the instance; it has finished, as has the creation of the instance,
  before any copy of a bundle file starts.
\<close>

theorem key_before_vm_bundle_before_copies:
  assumes dist: "distinct (map urn prog)"
    and sub: "set (VmService dirname name args opts) \<subseteq> set prog"
    and adm: "admissible prog t"
  shows "precedes (Finish (urn (sshKey name))) (Start (urn (vm name args opts))) t
         \<and> (\<forall>f \<in> set files.
              precedes (Finish (urn (workDir dirname name args opts)))
                       (Start (urn (copyFile dirname name args opts f))) t
              \<and> precedes (Finish (urn (vm name args opts)))
                       (Start (urn (copyFile dirname name args opts f))) t)"
proof -
  have "precedes (Finish (urn (sshKey name))) (Start (urn (vm name args opts))) t"
    using dist sub adm VmService_members(5) vm_deps by (rule VmService_waits)
  moreover have "precedes (Finish d) (Start (urn (copyFile dirname name args opts f))) t"
    if "f \<in> set files" and "d \<in> set (all_deps (copyFile dirname name args opts f))" for f d
    using dist sub adm VmService_members(7) [OF that(1)] that(2) by (rule VmService_waits)
  ultimately show ?thesis by (simp add: copyFile_deps)
qed

lemma vm_first_admissible: "admissible demo vm_first"
  by code_simp

text \<open>Claim C3 as stated fails: \<open>vm_first\<close> is an execution of the program in which the
  instance is created before bundle generation has even started. The instance waits for
  the key, the network placement and the component options only.\<close>

theorem bundle_before_vm_counterexample:
  "admissible demo vm_first
   \<and> \<not> precedes (Finish (urn (workDir ''/demo'' ''test'' test_a test_o)))
                  (Start (urn (vm ''test'' test_a test_o))) vm_first"
proof -
  have "\<not> precedes (Finish (urn (workDir ''/demo'' ''test'' test_a test_o)))
                  (Start (urn (vm ''test'' test_a test_o))) vm_first"
    by code_simp
  with vm_first_admissible show ?thesis by simp
qed

text \<open>The same execution shows the amended ordering at work.\<close>

theorem key_before_vm_bundle_before_copies_witness:
  "admissible demo vm_first
   \<and> Start (Instance, ''test'') \<in> set vm_first
   \<and> Finish (PrivateKey, ''test'')
        \<in> set (takeWhile (\<lambda>e. e \<noteq> Start (Instance, ''test'')) vm_first)
   \<and> Start (CopyFile, ''test-hosts'') \<in> set vm_first
   \<and> Finish (LocalCommand, ''test'')
        \<in> set (takeWhile (\<lambda>e. e \<noteq> Start (CopyFile, ''test-hosts'')) vm_first)
   \<and> Finish (Instance, ''test'')
        \<in> set (takeWhile (\<lambda>e. e \<noteq> Start (CopyFile, ''test-hosts'')) vm_first)"
proof -
  have st: "Start (Instance, ''test'') \<in> set vm_first"
    "Start (CopyFile, ''test-hosts'') \<in> set vm_first"
    by code_simp+
  from key_before_vm_bundle_before_copies [OF demo_distinct demo_VmService' vm_first_admissible] st
  show ?thesis
    using vm_first_admissible
    by (simp add: precedes_def files_def urn_def copyFile_def vm_def sshKey_def workDir_def)
qed

section \<open>The hostname output, the clock trigger and the replacement flag\<close>


text \<open>On every other instance the hostname, and with it the host of the remote session,
  is the NAT IP of the first access config of the first network interface.\<close>

lemma hostname_value_nat_ip:
  "accessConfigs netint = Some (ac # acs) \<Longrightarrow>
     hostname_value (netint # rest) = Inr (natIp ac)
     \<and> connection_host (netint # rest) = Inr (natIp ac)"
  by (simp add: hostname_value_def connection_host_def)

lemma localKc_neq:
  assumes "getMilliseconds t1 \<noteq> getMilliseconds t2"
  shows "pulumiFunction dirname t1 \<noteq> pulumiFunction dirname t2"
proof
  assume "pulumiFunction dirname t1 = pulumiFunction dirname t2"
  then have "pulumiFunction dirname t1 ! 5 = pulumiFunction dirname t2 ! 5" by simp
  then have "localKc dirname t1 = localKc dirname t2" by (simp add: pulumiFunction_def)
  then have "triggers (localKc dirname t1) = triggers (localKc dirname t2)" by simp
  with assms show False by (simp add: localKc_def)
qed

lemma untriggered_same:
  "map untriggered (pulumiFunction dirname t1) = map untriggered (pulumiFunction dirname t2)"
  by (simp add: pulumiFunction_def VmService_def remoteFiles_def files_def untriggered_def
      localKc_def istioNamespace_def base_def istiod_def ewgw_def istiodgw_def
      istiodvs_def crossNetworkGateway_def onpremns_def component_def sa_def
      workloadGroup_def workDir_def sshKey_def vm_def keyOnDisk_def copyFile_def
      dockerSetup_def dockerRun_def configure_def Let_def clusterOpts_def test_args_def
      test_opts_def urn_def hostname_def connection_def privateKey_def envs_def)

text \<open>
  Claim C10. The kubeconfig command declares one trigger, the millisecond component of
  the clock at evaluation, a number from 0 to 999. Two evaluations in the same
  directory whose clock readings differ in that component declare different programs,
  although the declarations agree on everything but the trigger.
\<close>

theorem kubeconfig_trigger_is_clock:
  "triggers (localKc dirname now) = [getMilliseconds now]
   \<and> 0 \<le> getMilliseconds now \<and> getMilliseconds now < 1000
   \<and> (getMilliseconds t1 \<noteq> getMilliseconds t2
        \<longrightarrow> pulumiFunction dirname t1 \<noteq> pulumiFunction dirname t2)
   \<and> map untriggered (pulumiFunction dirname t1) = map untriggered (pulumiFunction dirname t2)"
  using localKc_neq [of t1 t2 dirname] untriggered_same [of dirname t1 t2]
  by (simp add: localKc_def getMilliseconds_def)

text \<open>Two evaluations 333 milliseconds apart.\<close>

theorem kubeconfig_trigger_is_clock_witness:
  "getMilliseconds 1678900000123 = 123 \<and> getMilliseconds 1678900000456 = 456
   \<and> pulumiFunction ''/demo'' 1678900000123 \<noteq> pulumiFunction ''/demo'' 1678900000456"
  using kubeconfig_trigger_is_clock [of "''/demo''" 1678900000123 1678900000123 1678900000456]
  by (simp add: getMilliseconds_def)

text \<open>Claim C7 as stated fails: neither the generated key pair nor the compute instance
  carries the flag. The key is declared without options, and the instance receives the
  component's options, in which the program sets no flag.\<close>

theorem key_and_vm_without_flag_counterexample:
  "\<not> deleteBeforeReplace (ropts (sshKey ''test''))
   \<and> \<not> deleteBeforeReplace (ropts (vm ''test'' (test_args ''/demo'' 0) (test_opts ''/demo'' 0)))"
  by (simp add: sshKey_def vm_def no_opts_def test_opts_def options.truncate_def)

text \<open>
  Claim C7, as amended. The resources that carry the \<open>deleteBeforeReplace\<close> flag are
  exactly the kubeconfig command, the service account, the bundle-generation command,
  the debug-snapshot command, the five file copies and the workload-launch command.
\<close>

theorem deleteBeforeReplace_carriers:
  "map urn (filter (\<lambda>r. deleteBeforeReplace (ropts r)) (pulumiFunction dirname now)) =
     [(LocalCommand, ''kc''), (ServiceAccount, ''test''), (LocalCommand, ''test''),
      (LocalCommand, ''test-key''), (CopyFile, ''test-cluster.env''),
      (CopyFile, ''test-istio-token''), (CopyFile, ''test-mesh.yaml''),
      (CopyFile, ''test-root-cert.pem''), (CopyFile, ''test-hosts''),
      (RemoteCommand, ''test-docker-run'')]"
  by (simp add: pulumiFunction_def VmService_def remoteFiles_def files_def urn_def
      projectRes_def containerService_def network_def subnet_def gke_def localKc_def
      k8sProvider_def istioNamespace_def base_def istiod_def ewgw_def istiodgw_def
      istiodvs_def crossNetworkGateway_def firewall_def onpremns_def component_def sa_def
      workloadGroup_def workDir_def sshKey_def vm_def keyOnDisk_def copyFile_def
      dockerSetup_def dockerRun_def configure_def Let_def no_opts_def clusterOpts_def
      test_opts_def options.truncate_def)

section \<open>Declaration order and the bundle\<close>

lemma step_declared_prefix:
  assumes "step prog s e = Some s'"
    and "\<exists>n\<le>length prog. declared s = map urn (take n prog)"
  shows "\<exists>n\<le>length prog. declared s' = map urn (take n prog)"
proof (cases e)
  case (Declare u)
  from assms(2) obtain n where n: "n \<le> length prog" and d: "declared s = map urn (take n prog)"
    by blast
  then have l: "length (declared s) = n" by simp
  from Declare assms(1) l have lt: "n < length prog"
    and u: "urn (prog ! n) = u"
    and s': "declared s' = declared s @ [u]"
    by (auto split: if_splits)
  from lt have "take (Suc n) prog = take n prog @ [prog ! n]"
    by (rule take_Suc_conv_app_nth)
  with d u s' have "declared s' = map urn (take (Suc n) prog)" by simp
  with lt show ?thesis by (intro exI [of _ "Suc n"]) simp
next
  case (Start u)
  with assms show ?thesis by (auto split: if_splits)
next
  case (Finish u)
  with assms show ?thesis by (auto split: if_splits)
next
  case (Fail u)
  with assms show ?thesis by (auto split: if_splits)
qed

lemma exec_declared_prefix:
  "exec prog s t = Some s' \<Longrightarrow> \<exists>n\<le>length prog. declared s = map urn (take n prog)
   \<Longrightarrow> \<exists>n\<le>length prog. declared s' = map urn (take n prog)"
proof (induction t arbitrary: s)
  case Nil
  then show ?case by simp
next
  case (Cons e es)
  from Cons.prems(1) obtain s1 where s1: "step prog s e = Some s1"
    and r: "exec prog s1 es = Some s'" by (rule exec_ConsE)
  from Cons.IH [OF r step_declared_prefix [OF s1 Cons.prems(2)]] show ?case .
qed

text \<open>Declarations are registered in program order: when a resource starts, every
  declaration that precedes its own in the program has been registered.\<close>

lemma start_after_earlier_declarations:
  assumes adm: "admissible prog t"
    and dist: "distinct (map urn prog)"
    and i: "i < length prog" and j: "j \<le> i"
  shows "precedes (Declare (urn (prog ! j))) (Start (urn (prog ! i))) t"
proof (rule precedesI)
  fix pre post
  assume t: "t = pre @ Start (urn (prog ! i)) # post"
  with adm obtain s s' where s: "exec prog init pre = Some s"
    and st: "step prog s (Start (urn (prog ! i))) = Some s'"
    by (auto elim: admissible_split)
  from st have mem: "urn (prog ! i) \<in> set (declared s)"
    by (auto split: if_splits)
  have "\<exists>n\<le>length prog. declared init = map urn (take n prog)"
    by (intro exI [of _ 0]) (simp add: init_def)
  with exec_declared_prefix [OF s] obtain n where n: "n \<le> length prog"
    and d: "declared s = map urn (take n prog)" by blast
  from mem d obtain k where k: "k < n" and dk: "urn (prog ! k) = urn (prog ! i)"
    using n by (auto simp: in_set_conv_nth)
  from k n i dk have "map urn prog ! k = map urn prog ! i" by simp
  moreover from k n have "k < length (map urn prog)" by simp
  moreover from i have "i < length (map urn prog)" by simp
  ultimately have "k = i"
    using dist by (simp only: nth_eq_iff_index_eq)
  with k j have jl: "j < n" by simp
  with n have "take n prog ! j = prog ! j" and "j < length (take n prog)" by simp_all
  then have "prog ! j \<in> set (take n prog)" by (metis nth_mem)
  then have "urn (prog ! j) \<in> set (map urn (take n prog))" by simp
  with d exec_declared [OF s] show "Declare (urn (prog ! j)) \<in> set pre"
    by (simp add: init_def)
qed


text \<open>
  Claim C5, as amended. In every execution, bundle generation starts only after the
  service account has been created, and after the program has declared the service
  account and the workload-group descriptor. It does not wait for the workload-group
  object to be created in the cluster.
\<close>

theorem bundle_after_identity:
  assumes dist: "distinct (map urn prog)"
    and prog: "prog = before @ VmService dirname name args opts @ after"
    and adm: "admissible prog t"
  shows "precedes (Finish (urn (sa name args opts)))
                  (Start (urn (workDir dirname name args opts))) t
         \<and> precedes (Declare (urn (sa name args opts)))
                  (Start (urn (workDir dirname name args opts))) t
         \<and> precedes (Declare (urn (workloadGroup dirname name args opts)))
                  (Start (urn (workDir dirname name args opts))) t"
proof -
  from prog have sub: "set (VmService dirname name args opts) \<subseteq> set prog" by auto
  have at: "prog ! (length before + 1) = sa name args opts"
    "prog ! (length before + 2) = workloadGroup dirname name args opts"
    "prog ! (length before + 3) = workDir dirname name args opts"
    by (simp_all add: prog nth_append VmService_def)
  have len: "length before + 3 < length prog"
    by (simp add: prog VmService_def)
  have "precedes (Finish (urn (sa name args opts)))
                  (Start (urn (workDir dirname name args opts))) t"
    using dist sub adm VmService_members(3) workDir_deps by (rule VmService_waits)
  moreover have "precedes (Declare (urn (prog ! (length before + 1))))
                  (Start (urn (prog ! (length before + 3)))) t"
    using start_after_earlier_declarations [OF adm dist len, of "length before + 1"] by simp
  moreover have "precedes (Declare (urn (prog ! (length before + 2))))
                  (Start (urn (prog ! (length before + 3)))) t"
    using start_after_earlier_declarations [OF adm dist len, of "length before + 2"] by simp
  ultimately show ?thesis by (simp only: at)
qed

lemma demo_split:
  "demo = take 16 demo @ VmService ''/demo'' ''test'' test_a test_o @ []"
  by (simp add: demo_def pulumiFunction_def test_a_def test_o_def)

text \<open>The run in program order generates the bundle, after the three events.\<close>

theorem bundle_after_identity_witness:
  "admissible demo (in_order demo)
   \<and> Start (LocalCommand, ''test'') \<in> set (in_order demo)
   \<and> Finish (ServiceAccount, ''test'')
        \<in> set (takeWhile (\<lambda>e. e \<noteq> Start (LocalCommand, ''test'')) (in_order demo))
   \<and> Declare (ServiceAccount, ''test'')
        \<in> set (takeWhile (\<lambda>e. e \<noteq> Start (LocalCommand, ''test'')) (in_order demo))
   \<and> Declare (WorkloadGroup, ''test'')
        \<in> set (takeWhile (\<lambda>e. e \<noteq> Start (LocalCommand, ''test'')) (in_order demo))"
proof -
  have st: "Start (LocalCommand, ''test'') \<in> set (in_order demo)"
    by code_simp
  from bundle_after_identity [OF demo_distinct demo_split demo_in_order] st
  show ?thesis
    using demo_in_order
    by (simp add: precedes_def urn_def workDir_def sa_def workloadGroup_def Let_def)
qed

lemma bundle_first_admissible: "admissible demo bundle_first"
  by code_simp

text \<open>Claim C5 as stated fails: in the execution \<open>bundle_first\<close> the bundle is generated
  while the creation of the workload-group object has not even started. The bundle
  command declares \<open>dependsOn: sa\<close> and nothing else.\<close>

theorem bundle_before_workload_group:
  "admissible demo bundle_first
   \<and> \<not> precedes (Finish (WorkloadGroup, ''test'')) (Start (LocalCommand, ''test'')) bundle_first"
proof -
  have "\<not> precedes (Finish (WorkloadGroup, ''test'')) (Start (LocalCommand, ''test'')) bundle_first"
    by code_simp
  with bundle_first_admissible show ?thesis by simp
qed

section \<open>The debug snapshot\<close>

text \<open>No declaration of the program waits for the debug snapshot.\<close>

lemma deps_of_cases:
  assumes "d \<in> set (deps_of prog u)"
  obtains r where "r \<in> set prog" and "d \<in> set (all_deps r)"
proof -
  from assms obtain r where f: "find (\<lambda>r. urn r = u) prog = Some r"
    and d: "d \<in> set (all_deps r)"
    by (cases "find (\<lambda>r. urn r = u) prog") (auto simp: deps_of_def)
  from f have "r \<in> set prog" by (metis find_Some_iff nth_mem)
  then show ?thesis using d by (rule that)
qed

lemma nothing_waits_for_snapshot:
  "r \<in> set (pulumiFunction dirname now) \<Longrightarrow> (LocalCommand, ''test-key'') \<notin> set (all_deps r)"
  by (auto simp: pulumiFunction_def VmService_def remoteFiles_def files_def urn_def
      projectRes_def containerService_def network_def subnet_def gke_def localKc_def
      k8sProvider_def istioNamespace_def base_def istiod_def ewgw_def istiodgw_def
      istiodvs_def crossNetworkGateway_def firewall_def onpremns_def component_def sa_def
      workloadGroup_def workDir_def sshKey_def vm_def keyOnDisk_def copyFile_def
      dockerSetup_def dockerRun_def configure_def Let_def no_opts_def clusterOpts_def
      test_opts_def test_args_def options.truncate_def all_deps_def prop_deps_def
      interpolate_def project_def kubeconfig_def kubeContext_def connection_def hostname_def
      privateKey_def envs_def env_def)

lemma snapshot_no_dependents:
  "(LocalCommand, ''test-key'') \<notin> set (deps_of (pulumiFunction dirname now) u)"
  using nothing_waits_for_snapshot by (auto elim!: deps_of_cases)

section \<open>The command-line driver\<close>

text \<open>What the resources wait for depends neither on the directory nor on the clock; in
  the reverse of program order every resource comes before all it waits for.\<close>

lemma all_deps_clock_free:
  "map all_deps (pulumiFunction dirname now) = map all_deps demo"
  by (simp add: demo_def pulumiFunction_def VmService_def remoteFiles_def files_def urn_def
      projectRes_def containerService_def network_def subnet_def gke_def localKc_def
      k8sProvider_def istioNamespace_def base_def istiod_def ewgw_def istiodgw_def
      istiodvs_def crossNetworkGateway_def firewall_def onpremns_def component_def sa_def
      workloadGroup_def workDir_def sshKey_def vm_def keyOnDisk_def copyFile_def
      dockerSetup_def dockerRun_def configure_def Let_def no_opts_def clusterOpts_def
      test_opts_def test_args_def options.truncate_def all_deps_def prop_deps_def
      interpolate_def project_def kubeconfig_def kubeContext_def connection_def hostname_def
      privateKey_def envs_def env_def)

lemma demo_dependents_first: "dependents_first demo (destroy_order demo)"
  by code_simp

lemma dependents_first_cong:
  assumes "map urn p = map urn q" and "map all_deps p = map all_deps q"
  shows "dependents_first p (destroy_order p) = dependents_first q (destroy_order q)"
proof -
  have "dependents_first p order =
      list_all (\<lambda>(u, ds). list_all (\<lambda>d. d \<in> set (tl (dropWhile (\<lambda>v. v \<noteq> u) order))) ds)
        (zip (map urn p) (map all_deps p))" for p order
    by (induction p) (simp_all add: dependents_first_def)
  with assms show ?thesis by (simp add: destroy_order_def)
qed

lemma pulumiFunction_dependents_first:
  "dependents_first (pulumiFunction dirname now) (destroy_order (pulumiFunction dirname now))"
proof -
  have "map urn (pulumiFunction dirname now) = map urn demo"
    by (simp add: demo_def pulumiFunction_urns)
  then show ?thesis
    using all_deps_clock_free demo_dependents_first dependents_first_cong by blast
qed

text \<open>
  Claim C8. The command declares the single option \<open>--destroy\<close>. Without it the action
  selects or creates the stack \<open>demo\<close>, cancels, refreshes and updates, in this order,
  and prints the update summary after the runtime's output; with it the action selects
  or creates the stack, cancels and tears down, and prints the teardown summary. A
  rejected call ends the action at once with the error of that call: no later call is
  made, no summary is printed, the process ends with status 1 and the error is what it
  reports. A run without
  rejection ends with status 0. The teardown order of the runtime, the reverse of
  program order, removes every resource before the resources it waits for.
\<close>

theorem cli_behaviour:
  "map fst (cmd_options cli) = [''--destroy'']
   \<and> (w_select w = Some e \<longrightarrow>
        action d w = \<lparr>calls = [CreateOrSelectStack ''demo'' ''demo''], console = [],
                      result = Inl e\<rparr>)
   \<and> (w_select w = None \<and> w_cancel w = Some e \<longrightarrow>
        action d w = \<lparr>calls = [CreateOrSelectStack ''demo'' ''demo'', Cancel], console = [],
                      result = Inl e\<rparr>)
   \<and> (w_select w = None \<and> w_cancel w = None \<and> w_refresh w = Some e \<longrightarrow>
        action False w = \<lparr>calls = [CreateOrSelectStack ''demo'' ''demo'', Cancel, Refresh],
                          console = [], result = Inl e\<rparr>)
   \<and> (w_select w = None \<and> w_cancel w = None \<and> w_refresh w = None \<and> w_up w = Inl e \<longrightarrow>
        action False w = \<lparr>calls = [CreateOrSelectStack ''demo'' ''demo'', Cancel, Refresh, Up],
                          console = map Info (w_up_output w), result = Inl e\<rparr>)
   \<and> (w_select w = None \<and> w_cancel w = None \<and> w_refresh w = None \<and> w_up w = Inr n \<longrightarrow>
        action False w = \<lparr>calls = [CreateOrSelectStack ''demo'' ''demo'', Cancel, Refresh, Up],
                          console = map Info (w_up_output w) @ [UpdateSummary n],
                          result = Inr ()\<rparr>)
   \<and> (w_select w = None \<and> w_cancel w = None \<and> w_destroy w = Inl e \<longrightarrow>
        action True w = \<lparr>calls = [CreateOrSelectStack ''demo'' ''demo'', Cancel, Destroy],
                         console = map Info (w_destroy_output w), result = Inl e\<rparr>)
   \<and> (w_select w = None \<and> w_cancel w = None \<and> w_destroy w = Inr n \<longrightarrow>
        action True w = \<lparr>calls = [CreateOrSelectStack ''demo'' ''demo'', Cancel, Destroy],
                         console = map Info (w_destroy_output w) @ [DestroySummary n],
                         result = Inr ()\<rparr>)
   \<and> (result (action d w) = Inl e \<longrightarrow>
        exit_code (action d w) = 1 \<and> surfaced (action d w) = Some e)
   \<and> (result (action d w) = Inr () \<longrightarrow>
        exit_code (action d w) = 0 \<and> surfaced (action d w) = None)
   \<and> dependents_first (pulumiFunction dirname now) (destroy_order (pulumiFunction dirname now))"
  using pulumiFunction_dependents_first [of dirname now]
  by (simp add: cli_def action_def exit_code_def surfaced_def)

text \<open>One world for each way a run can end.\<close>

theorem cli_behaviour_witness:
  "action False world_no_stack =
     \<lparr>calls = [CreateOrSelectStack ''demo'' ''demo''], console = [], result = Inl ''no backend''\<rparr>
   \<and> action True world_no_cancel =
     \<lparr>calls = [CreateOrSelectStack ''demo'' ''demo'', Cancel], console = [],
      result = Inl ''cancel refused''\<rparr>
   \<and> action False world_no_refresh =
     \<lparr>calls = [CreateOrSelectStack ''demo'' ''demo'', Cancel, Refresh], console = [],
      result = Inl ''refresh refused''\<rparr>
   \<and> action False world_failing =
     \<lparr>calls = [CreateOrSelectStack ''demo'' ''demo'', Cancel, Refresh, Up],
      console = [Info ''Updating (demo)''], result = Inl ''update failed''\<rparr>
   \<and> action False world_ok =
     \<lparr>calls = [CreateOrSelectStack ''demo'' ''demo'', Cancel, Refresh, Up],
      console = [Info ''Updating (demo)'', UpdateSummary 31], result = Inr ()\<rparr>
   \<and> action True world_failing =
     \<lparr>calls = [CreateOrSelectStack ''demo'' ''demo'', Cancel, Destroy],
      console = [Info ''Destroying (demo)''], result = Inl ''destroy failed''\<rparr>
   \<and> action True world_ok =
     \<lparr>calls = [CreateOrSelectStack ''demo'' ''demo'', Cancel, Destroy],
      console = [Info ''Destroying (demo)'', DestroySummary 31], result = Inr ()\<rparr>
   \<and> exit_code (action False world_failing) = 1
   \<and> surfaced (action False world_failing) = Some ''update failed''
   \<and> exit_code (action True world_ok) = 0"
proof -
  have s: "w_select world_no_stack = Some ''no backend''"
    "w_select world_no_cancel = None \<and> w_cancel world_no_cancel = Some ''cancel refused''"
    "w_select world_no_refresh = None \<and> w_cancel world_no_refresh = None
      \<and> w_refresh world_no_refresh = Some ''refresh refused''"
    "w_select world_failing = None \<and> w_cancel world_failing = None
      \<and> w_refresh world_failing = None \<and> w_up world_failing = Inl ''update failed''
      \<and> w_destroy world_failing = Inl ''destroy failed''
      \<and> w_up_output world_failing = [''Updating (demo)'']
      \<and> w_destroy_output world_failing = [''Destroying (demo)'']"
    "w_select world_ok = None \<and> w_cancel world_ok = None \<and> w_refresh world_ok = None
      \<and> w_up world_ok = Inr 31 \<and> w_destroy world_ok = Inr 31
      \<and> w_up_output world_ok = [''Updating (demo)'']
      \<and> w_destroy_output world_ok = [''Destroying (demo)'']"
    by (simp_all add: world_ok_def world_no_stack_def world_no_cancel_def
        world_no_refresh_def world_failing_def)
  have a1: "action False world_no_stack =
     \<lparr>calls = [CreateOrSelectStack ''demo'' ''demo''], console = [], result = Inl ''no backend''\<rparr>"
    using cli_behaviour [of world_no_stack "''no backend''" False] s(1) by simp
  have a2: "action True world_no_cancel =
     \<lparr>calls = [CreateOrSelectStack ''demo'' ''demo'', Cancel], console = [],
      result = Inl ''cancel refused''\<rparr>"
    using cli_behaviour [of world_no_cancel "''cancel refused''" True] s(2) by simp
  have a3: "action False world_no_refresh =
     \<lparr>calls = [CreateOrSelectStack ''demo'' ''demo'', Cancel, Refresh], console = [],
      result = Inl ''refresh refused''\<rparr>"
    using cli_behaviour [of world_no_refresh "''refresh refused''" False] s(3) by simp
  have a4: "action False world_failing =
     \<lparr>calls = [CreateOrSelectStack ''demo'' ''demo'', Cancel, Refresh, Up],
      console = [Info ''Updating (demo)''], result = Inl ''update failed''\<rparr>"
    using cli_behaviour [of world_failing "''update failed''" False] s(4) by simp
  have a5: "action False world_ok =
     \<lparr>calls = [CreateOrSelectStack ''demo'' ''demo'', Cancel, Refresh, Up],
      console = [Info ''Updating (demo)'', UpdateSummary 31], result = Inr ()\<rparr>"
    using cli_behaviour [of world_ok undefined False 31] s(5) by simp
  have a6: "action True world_failing =
     \<lparr>calls = [CreateOrSelectStack ''demo'' ''demo'', Cancel, Destroy],
      console = [Info ''Destroying (demo)''], result = Inl ''destroy failed''\<rparr>"
    using cli_behaviour [of world_failing "''destroy failed''" True] s(4) by simp
  have a7: "action True world_ok =
     \<lparr>calls = [CreateOrSelectStack ''demo'' ''demo'', Cancel, Destroy],
      console = [Info ''Destroying (demo)'', DestroySummary 31], result = Inr ()\<rparr>"
    using cli_behaviour [of world_ok undefined True 31] s(5) by simp
  have a8: "exit_code (action False world_failing) = 1
      \<and> surfaced (action False world_failing) = Some ''update failed''"
    using cli_behaviour [of world_failing "''update failed''" False] a4 by simp
  have a9: "exit_code (action True world_ok) = 0"
    using cli_behaviour [of world_ok undefined True 31] a7 by simp
  from a1 a2 a3 a4 a5 a6 a7 a8 a9 show ?thesis by simp
qed

section \<open>The contents of the working directory\<close>




lemma ancestors_self: "p \<in> set (ancestors p)"
  by (simp add: ancestors_def)






lemma files_in_dirs: "files_in d (fsys\<lparr>dirs := ds\<rparr>) = files_in d fsys"
  by (simp add: files_in_def)





lemma write_file_dirs: "dirs (write_file m k fsys) = dirs fsys"
  by (simp add: write_file_def)




lemma write_all_dirs:
  "dirs (foldl (\<lambda>fsys n. write_file m (d, n) fsys) fsys ns) = dirs fsys"
  by (induction ns arbitrary: fsys) (simp_all add: write_file_dirs)















text \<open>With a blank in the path of the program's directory the snapshot command still
  succeeds, but its redirections go to the first word of the path: the working
  directory receives neither \<open>key\<close> nor \<open>hostname\<close>, and a file \<open>my\<close> appears beside
  the program's directory.\<close>

lemma blank_in_path:
  "map_option (listing ''/tmp/v/my demo/workloads/test'') (fs_of applied_blank)
     = Some [''workloadgroup.yaml'', ''cluster.env'', ''istio-token'', ''mesh.yaml'',
          ''root-cert.pem'', ''hosts'']"
  "map_option (listing ''/tmp/v'') (fs_of applied_blank) = Some [''my'', ''my demo'']"
  "\<not> one_word (WORK_DIR ''/tmp/v/my demo'' ''test'')"
  by code_simp+

text \<open>On that machine the snapshot cannot come first: its directory does not exist
  yet.\<close>

lemma snapshot_first_fails: "apply_local True ''/demo'' ''test'' fresh = Failed"
  by code_simp

end
